theory Spec2Isabelle
  imports Main "HOL-Library.Sublist"
begin

section \<open>Python values and the string primitives used by \<open>customer.py\<close>\<close>

text \<open>
  The class \<open>Customer\<close> is dynamically typed: every argument of the constructor and of the
  setters may be a value of any type, and the validators test the type with
  \<open>isinstance\<close>. Values are therefore a datatype. A \<open>str\<close> is a list of characters, each
  character standing for the code point of the same number (code points below 256);
  a float is kept by its \<open>repr\<close>, since only its type matters here; a dict is an association
  list read with \<open>map_of\<close>.
\<close>

datatype pyval =
    PNone
  | PBool bool
  | PInt int
  | PFloat string
  | PStr string
  | PList "pyval list"
  | PDict "(pyval \<times> pyval) list"

text \<open>\<open>isinstance(v, int)\<close> holds for \<open>bool\<close> too: \<open>bool\<close> is a subclass of \<open>int\<close>.\<close>

fun isinstance_int :: "pyval \<Rightarrow> bool" where
  "isinstance_int (PInt n) = True"
| "isinstance_int (PBool b) = True"
| "isinstance_int v = False"

fun isinstance_str :: "pyval \<Rightarrow> bool" where
  "isinstance_str (PStr s) = True"
| "isinstance_str v = False"

text \<open>The integer an \<open>int\<close> or \<open>bool\<close> compares as (\<open>True\<close> is 1, \<open>False\<close> is 0).\<close>

fun int_of :: "pyval \<Rightarrow> int" where
  "int_of (PInt n) = n"
| "int_of (PBool b) = (if b then 1 else 0)"
| "int_of v = 0"

fun str_of :: "pyval \<Rightarrow> string" where
  "str_of (PStr s) = s"
| "str_of v = []"

text \<open>
  The characters \<open>str.strip()\<close> and \<open>str.split()\<close> treat as whitespace, below code point 256:
  tab, line feed, vertical tab, form feed, carriage return, the four separators
  0x1C..0x1F, space, next line (0x85) and no-break space (0xA0).
\<close>

definition py_isspace :: "char \<Rightarrow> bool" where
  "py_isspace c = ((of_char c :: nat) \<in> {9, 10, 11, 12, 13, 28, 29, 30, 31, 32, 133, 160})"

text \<open>
  The characters for which \<open>str.isdigit()\<close> holds, below code point 256: the ten decimal
  digits and the superscript digits two, three and one (0xB2, 0xB3, 0xB9).
\<close>

definition is_decimal_digit :: "char \<Rightarrow> bool" where
  "is_decimal_digit c = (48 \<le> (of_char c :: nat) \<and> (of_char c :: nat) \<le> 57)"

definition py_isdigit_char :: "char \<Rightarrow> bool" where
  "py_isdigit_char c = (is_decimal_digit c \<or> (of_char c :: nat) \<in> {178, 179, 185})"

text \<open>\<open>s.isdigit()\<close>: false on the empty string.\<close>

definition py_isdigit :: "string \<Rightarrow> bool" where
  "py_isdigit s = (s \<noteq> [] \<and> list_all py_isdigit_char s)"

text \<open>\<open>s.strip()\<close>: whitespace removed at both ends.\<close>

definition py_strip :: "string \<Rightarrow> string" where
  "py_strip s = rev (dropWhile py_isspace (rev (dropWhile py_isspace s)))"

text \<open>
  \<open>s.split()\<close>: the maximal runs of non-whitespace characters, in order. The first
  argument is the run being read, reversed.
\<close>

fun split_from :: "string \<Rightarrow> string \<Rightarrow> string list" where
  "split_from cur [] = (if cur = [] then [] else [rev cur])"
| "split_from cur (c # cs) =
     (if py_isspace c
      then (if cur = [] then split_from [] cs else rev cur # split_from [] cs)
      else split_from (c # cur) cs)"

definition py_split :: "string \<Rightarrow> string list" where
  "py_split s = split_from [] s"

text \<open>\<open>s.replace(ch, "")\<close> for a one-character \<open>ch\<close>: every occurrence removed.\<close>

definition py_remove :: "char \<Rightarrow> string \<Rightarrow> string" where
  "py_remove ch s = filter (\<lambda>c. c \<noteq> ch) s"

text \<open>\<open>str(n)\<close> of an integer: its decimal digits, with a minus sign below zero.\<close>

fun digits_of :: "nat \<Rightarrow> string" where
  "digits_of n =
     (if n < 10 then [char_of (48 + n)]
      else digits_of (n div 10) @ [char_of (48 + n mod 10)])"

declare digits_of.simps [simp del]

definition str_int :: "int \<Rightarrow> string" where
  "str_int i = (if i < 0 then CHR ''-'' # digits_of (nat (- i)) else digits_of (nat i))"

text \<open>
  What an f-string writes for \<open>{v}\<close>, that is \<open>str(v)\<close>. The \<open>str\<close> of a list or a dict is
  built from the \<open>repr\<close> of its elements and is left out (\<open>None\<close>): no field of a constructed
  object holds one.
\<close>

fun py_format :: "pyval \<Rightarrow> string option" where
  "py_format (PStr s) = Some s"
| "py_format (PInt n) = Some (str_int n)"
| "py_format (PBool b) = Some (if b then ''True'' else ''False'')"
| "py_format PNone = Some ''None''"
| "py_format (PFloat r) = Some r"
| "py_format (PList xs) = None"
| "py_format (PDict d) = None"

section \<open>Errors\<close>

text \<open>
  Every error the class raises itself is a \<open>ValueError\<close>; the errors differ in their message
  only. An error value stands for one message:
  \<^item> \<open>InvalidArgumentError WrongCount\<close>: "wrong number of arguments";
    \<open>InvalidArgumentError UnsupportedType\<close>: "unsupported argument type";
  \<^item> \<open>FormatError\<close>: "incorrect JSON format";
  \<^item> \<open>MissingFieldError ms\<close>: "required fields are missing:" followed by the list \<open>ms\<close>;
  \<^item> \<open>TypeError CustomerId\<close>: "Customer ID must be an integer"; \<open>TypeError Phone\<close>: "the phone
    must be a string"; \<open>TypeError f\<close> for the three other fields: "(field name) must be a string";
  \<^item> \<open>RangeError\<close>: "Customer ID must be a positive number";
  \<^item> \<open>EmptyValueError f\<close>: "(field name) cannot be empty";
  \<^item> \<open>TooShortError f n\<close>: "(field name) must contain at least n characters", and for the
    phone "the phone must contain at least 5 digits";
  \<^item> \<open>InvalidFormatError\<close>: "the phone must contain only digits and allowed characters";
  \<^item> \<open>MalformedNameError\<close>: "the contact person must contain a first and a last name".

  \<open>BuiltinTypeError\<close> and \<open>BuiltinKeyError\<close> are the interpreter's own \<open>TypeError\<close> and
  \<open>KeyError\<close>, raised by \<open>in\<close> and by subscription.
\<close>

datatype field = CustomerId | Name | Address | Phone | ContactPerson

datatype arg_problem = WrongCount | UnsupportedType

datatype error =
    InvalidArgumentError arg_problem
  | FormatError
  | MissingFieldError "string list"
  | TypeError field
  | RangeError
  | EmptyValueError field
  | TooShortError field nat
  | InvalidFormatError
  | MalformedNameError
  | BuiltinTypeError
  | BuiltinKeyError

text \<open>Sequencing of statements that may raise: the first error ends the run.\<close>

definition and_then :: "error + unit \<Rightarrow> error + 'a \<Rightarrow> error + 'a" where
  "and_then r k = (case r of Inl e \<Rightarrow> Inl e | Inr u \<Rightarrow> k)"

definition bind_value :: "error + 'a \<Rightarrow> ('a \<Rightarrow> error + 'b) \<Rightarrow> error + 'b" where
  "bind_value r k = (case r of Inl e \<Rightarrow> Inl e | Inr v \<Rightarrow> k v)"

section \<open>The validators\<close>

definition validate_customer_id :: "pyval \<Rightarrow> error + unit" where
  "validate_customer_id customer_id =
     (if \<not> isinstance_int customer_id then Inl (TypeError CustomerId)
      else if int_of customer_id \<le> 0 then Inl RangeError
      else Inr ())"

definition validate_string_field :: "pyval \<Rightarrow> field \<Rightarrow> nat \<Rightarrow> error + unit" where
  "validate_string_field v field_name min_length =
     (if \<not> isinstance_str v then Inl (TypeError field_name)
      else if py_strip (str_of v) = [] then Inl (EmptyValueError field_name)
      else if length (py_strip (str_of v)) < min_length
        then Inl (TooShortError field_name min_length)
      else Inr ())"

definition clean_phone :: "string \<Rightarrow> string" where
  "clean_phone p =
     py_remove (CHR ''-'') (py_remove (CHR '')'') (py_remove (CHR ''('') (py_remove (CHR '' '') p)))"

definition validate_phone :: "pyval \<Rightarrow> error + unit" where
  "validate_phone v =
     (if \<not> isinstance_str v then Inl (TypeError Phone)
      else if \<not> py_isdigit (clean_phone (str_of v)) then Inl InvalidFormatError
      else if length (clean_phone (str_of v)) < 5 then Inl (TooShortError Phone 5)
      else Inr ())"

definition validate_contact_person :: "pyval \<Rightarrow> error + unit" where
  "validate_contact_person v =
     and_then (validate_string_field v ContactPerson 2)
       (if length (py_split (py_strip (str_of v))) < 2 then Inl MalformedNameError
        else Inr ())"

section \<open>The object and its constructor\<close>

record customer =
  customer_id :: pyval
  name :: pyval
  address :: pyval
  phone :: pyval
  contact_person :: pyval

definition validate_and_init ::
  "pyval \<Rightarrow> pyval \<Rightarrow> pyval \<Rightarrow> pyval \<Rightarrow> pyval \<Rightarrow> error + customer" where
  "validate_and_init cid n a p cp =
     and_then (validate_customer_id cid)
    (and_then (validate_string_field n Name 2)
    (and_then (validate_string_field a Address 5)
    (and_then (validate_phone p)
    (and_then (validate_contact_person cp)
      (Inr \<lparr>customer_id = cid, name = n, address = a, phone = p, contact_person = cp\<rparr>)))))"

definition required_fields :: "string list" where
  "required_fields = [''customer_id'', ''name'', ''address'', ''phone'', ''contact_person'']"

text \<open>
  \<open>key in data\<close>: a key of a dict, an element of a list, a substring of a string; any other
  value is not iterable.
\<close>

fun py_contains :: "pyval \<Rightarrow> string \<Rightarrow> error + bool" where
  "py_contains (PDict d) k = Inr (map_of d (PStr k) \<noteq> None)"
| "py_contains (PList xs) k = Inr (PStr k \<in> set xs)"
| "py_contains (PStr s) k = Inr (sublist k s)"
| "py_contains v k = Inl BuiltinTypeError"

text \<open>\<open>data[key]\<close> for a string key: only a dict can be read with one.\<close>

fun py_getitem :: "pyval \<Rightarrow> string \<Rightarrow> error + pyval" where
  "py_getitem (PDict d) k =
     (case map_of d (PStr k) of None \<Rightarrow> Inl BuiltinKeyError | Some v \<Rightarrow> Inr v)"
| "py_getitem v k = Inl BuiltinTypeError"

text \<open>\<open>[field for field in fields if field not in data]\<close>\<close>

fun missing_fields :: "pyval \<Rightarrow> string list \<Rightarrow> error + string list" where
  "missing_fields data [] = Inr []"
| "missing_fields data (f # fs) =
     bind_value (py_contains data f) (\<lambda>present.
     bind_value (missing_fields data fs) (\<lambda>ms.
       Inr (if present then ms else f # ms)))"

definition init_from_dict :: "pyval \<Rightarrow> error + customer" where
  "init_from_dict data =
     bind_value (missing_fields data required_fields) (\<lambda>ms.
       if ms \<noteq> [] then Inl (MissingFieldError ms)
       else
         bind_value (py_getitem data ''customer_id'') (\<lambda>cid.
         bind_value (py_getitem data ''name'') (\<lambda>n.
         bind_value (py_getitem data ''address'') (\<lambda>a.
         bind_value (py_getitem data ''phone'') (\<lambda>p.
         bind_value (py_getitem data ''contact_person'') (\<lambda>cp.
           validate_and_init cid n a p cp))))))"

text \<open>The named parameters arrive as a dict whose keys are strings.\<close>

definition kwargs_items :: "(string \<times> pyval) list \<Rightarrow> (pyval \<times> pyval) list" where
  "kwargs_items kwargs = map (\<lambda>(k, v). (PStr k, v)) kwargs"

definition kwargs_dict :: "(string \<times> pyval) list \<Rightarrow> pyval" where
  "kwargs_dict kwargs = PDict (kwargs_items kwargs)"

definition init_from_kwargs :: "(string \<times> pyval) list \<Rightarrow> error + customer" where
  "init_from_kwargs kwargs =
     bind_value (missing_fields (kwargs_dict kwargs) required_fields) (\<lambda>ms.
       if ms \<noteq> [] then Inl (MissingFieldError ms)
       else
         bind_value (py_getitem (kwargs_dict kwargs) ''customer_id'') (\<lambda>cid.
         bind_value (py_getitem (kwargs_dict kwargs) ''name'') (\<lambda>n.
         bind_value (py_getitem (kwargs_dict kwargs) ''address'') (\<lambda>a.
         bind_value (py_getitem (kwargs_dict kwargs) ''phone'') (\<lambda>p.
         bind_value (py_getitem (kwargs_dict kwargs) ''contact_person'') (\<lambda>cp.
           validate_and_init cid n a p cp))))))"

text \<open>
  \<open>Customer(*args, **kwargs)\<close>. The decoder \<open>json.loads\<close> belongs to the standard library and
  is a parameter: \<open>loads s\<close> is \<open>None\<close> where \<open>json.loads(s)\<close> raises \<open>JSONDecodeError\<close>, and the
  decoded value otherwise. The result is the error raised, or the object constructed.
\<close>

definition Customer_init ::
  "(string \<Rightarrow> pyval option) \<Rightarrow> pyval list \<Rightarrow> (string \<times> pyval) list \<Rightarrow> error + customer" where
  "Customer_init loads args kwargs =
     (if length args = 1 then
        (case args ! 0 of
           PStr s \<Rightarrow>
             (case loads s of
                None \<Rightarrow> Inl FormatError
              | Some data \<Rightarrow> init_from_dict data)
         | PDict d \<Rightarrow> init_from_dict (PDict d)
         | _ \<Rightarrow> Inl (InvalidArgumentError UnsupportedType))
      else if length args = 5 then
        validate_and_init (args ! 0) (args ! 1) (args ! 2) (args ! 3) (args ! 4)
      else if kwargs \<noteq> [] then init_from_kwargs kwargs
      else Inl (InvalidArgumentError WrongCount))"

section \<open>Getters, setters and \<open>__str__\<close>\<close>

definition get_customer_id :: "customer \<Rightarrow> pyval" where
  "get_customer_id self = customer_id self"

definition get_name :: "customer \<Rightarrow> pyval" where
  "get_name self = name self"

definition get_address :: "customer \<Rightarrow> pyval" where
  "get_address self = address self"

definition get_phone :: "customer \<Rightarrow> pyval" where
  "get_phone self = phone self"

definition get_contact_person :: "customer \<Rightarrow> pyval" where
  "get_contact_person self = contact_person self"

text \<open>
  A setter returns what the call did (the error raised, or a normal return) together with
  the object as the call leaves it.
\<close>

definition set_customer_id :: "customer \<Rightarrow> pyval \<Rightarrow> (error + unit) \<times> customer" where
  "set_customer_id self v =
     (case validate_customer_id v of
        Inl e \<Rightarrow> (Inl e, self)
      | Inr u \<Rightarrow> (Inr (), self\<lparr>customer_id := v\<rparr>))"

definition set_name :: "customer \<Rightarrow> pyval \<Rightarrow> (error + unit) \<times> customer" where
  "set_name self v =
     (case validate_string_field v Name 2 of
        Inl e \<Rightarrow> (Inl e, self)
      | Inr u \<Rightarrow> (Inr (), self\<lparr>name := v\<rparr>))"

definition set_address :: "customer \<Rightarrow> pyval \<Rightarrow> (error + unit) \<times> customer" where
  "set_address self v =
     (case validate_string_field v Address 5 of
        Inl e \<Rightarrow> (Inl e, self)
      | Inr u \<Rightarrow> (Inr (), self\<lparr>address := v\<rparr>))"

definition set_phone :: "customer \<Rightarrow> pyval \<Rightarrow> (error + unit) \<times> customer" where
  "set_phone self v =
     (case validate_phone v of
        Inl e \<Rightarrow> (Inl e, self)
      | Inr u \<Rightarrow> (Inr (), self\<lparr>phone := v\<rparr>))"

definition set_contact_person :: "customer \<Rightarrow> pyval \<Rightarrow> (error + unit) \<times> customer" where
  "set_contact_person self v =
     (case validate_contact_person v of
        Inl e \<Rightarrow> (Inl e, self)
      | Inr u \<Rightarrow> (Inr (), self\<lparr>contact_person := v\<rparr>))"

definition Customer_str :: "customer \<Rightarrow> string option" where
  "Customer_str self =
     (case (py_format (customer_id self), py_format (name self),
            py_format (phone self), py_format (contact_person self)) of
        (Some i, Some n, Some p, Some c) \<Rightarrow>
          Some (''Customer: ID='' @ i @ '', Name='' @ [CHR 0x27] @ n @ [CHR 0x27]
                @ '', Phone='' @ [CHR 0x27] @ p @ [CHR 0x27]
                @ '', Contact='' @ [CHR 0x27] @ c @ [CHR 0x27])
      | _ \<Rightarrow> None)"

section \<open>The data model as the specification words it\<close>

text \<open>
  The validity rules of the data model, written from the specification and not from the
  validators: the identifier is an integer above zero; the name has trimmed length at least
  2 and the address at least 5; the phone, once spaces, parentheses and hyphens are
  stripped, consists of decimal digits and has at least 5 of them; the contact person has
  trimmed length at least 2 and at least two whitespace-separated tokens.
\<close>

definition spec_valid_customer_id :: "pyval \<Rightarrow> bool" where
  "spec_valid_customer_id v = (isinstance_int v \<and> 0 < int_of v)"

definition spec_valid_text :: "nat \<Rightarrow> pyval \<Rightarrow> bool" where
  "spec_valid_text m v = (isinstance_str v \<and> m \<le> length (py_strip (str_of v)))"

definition strip_phone_chars :: "string \<Rightarrow> string" where
  "strip_phone_chars s = filter (\<lambda>c. c \<notin> {CHR '' '', CHR ''('', CHR '')'', CHR ''-''}) s"

definition spec_valid_phone :: "pyval \<Rightarrow> bool" where
  "spec_valid_phone v =
     (isinstance_str v \<and> list_all is_decimal_digit (strip_phone_chars (str_of v))
      \<and> 5 \<le> length (strip_phone_chars (str_of v)))"

definition spec_valid_contact_person :: "pyval \<Rightarrow> bool" where
  "spec_valid_contact_person v =
     (isinstance_str v \<and> 2 \<le> length (py_strip (str_of v))
      \<and> 2 \<le> length (py_split (py_strip (str_of v))))"

definition valid_customer :: "customer \<Rightarrow> bool" where
  "valid_customer c =
     (spec_valid_customer_id (customer_id c) \<and> spec_valid_text 2 (name c)
      \<and> spec_valid_text 5 (address c) \<and> spec_valid_phone (phone c)
      \<and> spec_valid_contact_person (contact_person c))"

text \<open>
  The wider phone rule, with the digits of \<open>str.isdigit\<close> in place of the decimal digits:
  the superscript digits count as digits too. The rule for an object is the one above with
  this phone rule.
\<close>

definition accepted_phone :: "pyval \<Rightarrow> bool" where
  "accepted_phone v =
     (isinstance_str v \<and> list_all py_isdigit_char (strip_phone_chars (str_of v))
      \<and> 5 \<le> length (strip_phone_chars (str_of v)))"

definition accepted_customer :: "customer \<Rightarrow> bool" where
  "accepted_customer c =
     (spec_valid_customer_id (customer_id c) \<and> spec_valid_text 2 (name c)
      \<and> spec_valid_text 5 (address c) \<and> accepted_phone (phone c)
      \<and> spec_valid_contact_person (contact_person c))"

text \<open>
  The number a string of decimal digits denotes, read from the left; a character that is
  not a digit counts as zero.
\<close>

definition digit_value :: "char \<Rightarrow> nat" where
  "digit_value c = (of_char c :: nat) - 48"

definition val_of :: "string \<Rightarrow> nat" where
  "val_of s = foldl (\<lambda>acc c. 10 * acc + digit_value c) 0 s"

text \<open>Five superscript twos, a phone the two rules disagree on.\<close>

definition superscript_phone :: pyval where
  "superscript_phone = PStr [CHR 0xB2, CHR 0xB2, CHR 0xB2, CHR 0xB2, CHR 0xB2]"

text \<open>
  The phone rule with "all decimal digits" read literally: a format error when some
  remaining character is not one of 0..9, then a length error below five characters.
\<close>

definition spec_phone_check :: "string \<Rightarrow> error + unit" where
  "spec_phone_check p =
     (if \<not> list_all is_decimal_digit (strip_phone_chars p) then Inl InvalidFormatError
      else if length (strip_phone_chars p) < 5 then Inl (TooShortError Phone 5)
      else Inr ())"

text \<open>The five required keys are all present in a dict, or in the named parameters.\<close>

definition has_required :: "(pyval \<times> pyval) list \<Rightarrow> bool" where
  "has_required d = list_all (\<lambda>k. map_of d (PStr k) \<noteq> None) required_fields"

definition absent_keys :: "(pyval \<times> pyval) list \<Rightarrow> string list" where
  "absent_keys d = filter (\<lambda>k. map_of d (PStr k) = None) required_fields"

text \<open>The errors of the dispatch in \<open>__init__\<close> itself, as opposed to those of a field.\<close>

fun is_dispatch_error :: "error \<Rightarrow> bool" where
  "is_dispatch_error (InvalidArgumentError p) = True"
| "is_dispatch_error FormatError = True"
| "is_dispatch_error e = False"

fun isinstance_dict :: "pyval \<Rightarrow> bool" where
  "isinstance_dict (PDict d) = True"
| "isinstance_dict v = False"

section \<open>Sample inputs\<close>

definition quoted :: "string \<Rightarrow> string" where
  "quoted s = CHR 0x22 # s @ [CHR 0x22]"

definition sample_dict :: "(pyval \<times> pyval) list" where
  "sample_dict =
     [(PStr ''customer_id'', PInt 1), (PStr ''name'', PStr ''Acme''),
      (PStr ''address'', PStr ''Main street 1''), (PStr ''phone'', PStr ''12-34(56)''),
      (PStr ''contact_person'', PStr ''Ivan Ivanov'')]"

definition sample_kwargs :: "(string \<times> pyval) list" where
  "sample_kwargs =
     [(''customer_id'', PInt 1), (''name'', PStr ''Acme''),
      (''address'', PStr ''Main street 1''), (''phone'', PStr ''12-34(56)''),
      (''contact_person'', PStr ''Ivan Ivanov'')]"

definition sample_customer :: customer where
  "sample_customer =
     \<lparr>customer_id = PInt 1, name = PStr ''Acme'', address = PStr ''Main street 1'',
      phone = PStr ''12-34(56)'', contact_person = PStr ''Ivan Ivanov''\<rparr>"

text \<open>The JSON text of \<open>sample_dict\<close>, and the same with the identifier 0.\<close>

definition sample_text_with_id :: "string \<Rightarrow> string" where
  "sample_text_with_id i =
     ''{'' @ quoted ''customer_id'' @ '': '' @ i @ '', ''
     @ quoted ''name'' @ '': '' @ quoted ''Acme'' @ '', ''
     @ quoted ''address'' @ '': '' @ quoted ''Main street 1'' @ '', ''
     @ quoted ''phone'' @ '': '' @ quoted ''12-34(56)'' @ '', ''
     @ quoted ''contact_person'' @ '': '' @ quoted ''Ivan Ivanov'' @ ''}''"

definition sample_text :: string where
  "sample_text = sample_text_with_id ''1''"

definition sample_text_zero :: string where
  "sample_text_zero = sample_text_with_id ''0''"

text \<open>The JSON text of a mapping that has the name only.\<close>

definition sample_text_name_only :: string where
  "sample_text_name_only = ''{'' @ quoted ''name'' @ '': '' @ quoted ''Acme'' @ ''}''"

text \<open>
  An instance of the decoder for the examples: the values \<open>json.loads\<close> returns on the four
  sample texts and on the empty array; every other text is taken as malformed.
\<close>

definition sample_loads :: "string \<Rightarrow> pyval option" where
  "sample_loads s =
     (if s = sample_text then Some (PDict sample_dict)
      else if s = sample_text_zero
        then Some (PDict ((PStr ''customer_id'', PInt 0) # tl sample_dict))
      else if s = sample_text_name_only then Some (PDict [(PStr ''name'', PStr ''Acme'')])
      else if s = ''[]'' then Some (PList [])
      else None)"

section \<open>Properties of the validators\<close>

lemma validate_customer_id_ok:
  "validate_customer_id v = Inr () \<longleftrightarrow> spec_valid_customer_id v"
  by (auto simp: validate_customer_id_def spec_valid_customer_id_def)

lemma validate_string_field_ok:
  "0 < m \<Longrightarrow> validate_string_field v f m = Inr () \<longleftrightarrow> spec_valid_text m v"
  by (auto simp: validate_string_field_def spec_valid_text_def)

lemma clean_phone_strip: "clean_phone s = strip_phone_chars s"
  by (induction s) (auto simp: clean_phone_def strip_phone_chars_def py_remove_def)

lemma validate_phone_ok: "validate_phone v = Inr () \<longleftrightarrow> accepted_phone v"
  by (auto simp: validate_phone_def accepted_phone_def clean_phone_strip py_isdigit_def)

lemma validate_contact_person_ok:
  "validate_contact_person v = Inr () \<longleftrightarrow> spec_valid_contact_person v"
  by (auto simp: validate_contact_person_def spec_valid_contact_person_def and_then_def
      validate_string_field_def split: sum.splits)

lemma and_then_Inr: "and_then r k = Inr x \<longleftrightarrow> r = Inr () \<and> k = Inr x"
  by (cases r) (auto simp: and_then_def)

lemma validate_and_init_Inr:
  "validate_and_init cid n a p cp = Inr c \<longleftrightarrow>
     spec_valid_customer_id cid \<and> spec_valid_text 2 n \<and> spec_valid_text 5 a
     \<and> accepted_phone p \<and> spec_valid_contact_person cp
     \<and> c = \<lparr>customer_id = cid, name = n, address = a, phone = p, contact_person = cp\<rparr>"
  by (auto simp: validate_and_init_def and_then_Inr validate_customer_id_ok
      validate_string_field_ok validate_phone_ok validate_contact_person_ok)

lemma validate_error_not_dispatch:
  "validate_and_init cid n a p cp = Inl e \<Longrightarrow> \<not> is_dispatch_error e"
  by (auto simp: validate_and_init_def and_then_def validate_customer_id_def
      validate_string_field_def validate_phone_def validate_contact_person_def
      split: sum.splits if_splits)

lemma not_Inr_unit: "r \<noteq> Inr () \<Longrightarrow> \<exists>e. r = Inl e" for r :: "error + unit"
  by (cases r) auto

section \<open>Properties of the dictionary paths\<close>

lemma missing_fields_PDict:
  "missing_fields (PDict d) fs = Inr (filter (\<lambda>k. map_of d (PStr k) = None) fs)"
  by (induction fs) (auto simp: bind_value_def)

lemma missing_fields_PList:
  "missing_fields (PList xs) fs = Inr (filter (\<lambda>k. PStr k \<notin> set xs) fs)"
  by (induction fs) (auto simp: bind_value_def)

lemma missing_fields_error:
  "missing_fields data fs = Inl e \<Longrightarrow> e = BuiltinTypeError"
  by (induction fs arbitrary: e)
    (auto simp: bind_value_def split: sum.splits elim: py_contains.elims)

lemma py_getitem_error: "py_getitem data k = Inl e \<Longrightarrow> \<not> is_dispatch_error e"
  by (cases data) (auto split: option.splits)

lemma init_from_dict_error:
  "init_from_dict data = Inl e \<Longrightarrow> \<not> is_dispatch_error e"
  by (auto simp: init_from_dict_def bind_value_def split: sum.splits if_splits
      dest: missing_fields_error py_getitem_error validate_error_not_dispatch)

lemma absent_keys_Nil: "absent_keys d = [] \<longleftrightarrow> has_required d"
  by (simp add: absent_keys_def has_required_def filter_empty_conv list_all_iff)

lemma has_required_lookup:
  assumes "has_required d"
  obtains cid n a p cp where
    "map_of d (PStr ''customer_id'') = Some cid" "map_of d (PStr ''name'') = Some n"
    "map_of d (PStr ''address'') = Some a" "map_of d (PStr ''phone'') = Some p"
    "map_of d (PStr ''contact_person'') = Some cp"
  using assms by (auto simp: has_required_def required_fields_def)

lemma init_from_dict_missing:
  "\<not> has_required d \<Longrightarrow> init_from_dict (PDict d) = Inl (MissingFieldError (absent_keys d))"
  by (simp add: init_from_dict_def missing_fields_PDict bind_value_def absent_keys_Nil
      flip: absent_keys_def)

lemma init_from_dict_present:
  assumes "map_of d (PStr ''customer_id'') = Some cid" "map_of d (PStr ''name'') = Some n"
    "map_of d (PStr ''address'') = Some a" "map_of d (PStr ''phone'') = Some p"
    "map_of d (PStr ''contact_person'') = Some cp"
  shows "init_from_dict (PDict d) = validate_and_init cid n a p cp"
proof -
  have "filter (\<lambda>k. map_of d (PStr k) = None) required_fields = []"
    using assms by (simp add: required_fields_def)
  then show ?thesis
    using assms by (simp add: init_from_dict_def missing_fields_PDict bind_value_def)
qed

lemma init_from_dict_accepted: "init_from_dict data = Inr c \<Longrightarrow> accepted_customer c"
  by (auto simp: init_from_dict_def bind_value_def validate_and_init_Inr accepted_customer_def
      split: sum.splits if_splits)

lemma map_of_kwargs: "map_of (kwargs_items kw) (PStr k) = map_of kw k"
  by (induction kw) (auto simp: kwargs_items_def)

lemma init_from_kwargs_dict: "init_from_kwargs kw = init_from_dict (kwargs_dict kw)"
  by (simp add: init_from_kwargs_def init_from_dict_def)

lemma init_from_kwargs_present:
  assumes "map_of kw ''customer_id'' = Some cid" "map_of kw ''name'' = Some n"
    "map_of kw ''address'' = Some a" "map_of kw ''phone'' = Some p"
    "map_of kw ''contact_person'' = Some cp"
  shows "init_from_kwargs kw = validate_and_init cid n a p cp"
  unfolding init_from_kwargs_dict kwargs_dict_def
  by (rule init_from_dict_present) (simp_all add: map_of_kwargs assms)

lemma init_from_kwargs_error: "init_from_kwargs kw = Inl e \<Longrightarrow> \<not> is_dispatch_error e"
  by (simp add: init_from_kwargs_dict init_from_dict_error)

lemma valid_id_format:
  "spec_valid_customer_id v \<Longrightarrow>
     py_format v = Some (if v = PBool True then ''True'' else str_int (int_of v))"
  by (cases v) (auto simp: spec_valid_customer_id_def)

lemma isinstance_str_format: "isinstance_str v \<Longrightarrow> py_format v = Some (str_of v)"
  by (cases v) auto

section \<open>The decimal numeral of an integer\<close>

lemma val_of_snoc: "val_of (xs @ [c]) = 10 * val_of xs + digit_value c"
  by (simp add: val_of_def)

lemma digit_value_char_of: "d < 10 \<Longrightarrow> digit_value (char_of (48 + d)) = d" for d :: nat
  by (simp add: digit_value_def)

lemma val_of_digits_of: "val_of (digits_of n) = n"
proof (induction n rule: digits_of.induct)
  case (1 n)
  show ?case
  proof (cases "n < 10")
    case True
    then show ?thesis
      by (simp add: digits_of.simps [of n] val_of_def digit_value_char_of)
  next
    case False
    then have "val_of (digits_of n) = 10 * val_of (digits_of (n div 10)) + n mod 10"
      by (simp add: digits_of.simps [of n] val_of_snoc digit_value_char_of)
    with False "1.IH" show ?thesis by simp
  qed
qed

lemma decimal_char_of: "d < 10 \<Longrightarrow> is_decimal_digit (char_of (48 + d))" for d :: nat
  by (simp add: is_decimal_digit_def)

lemma digits_of_decimal: "list_all is_decimal_digit (digits_of n)"
proof (induction n rule: digits_of.induct)
  case (1 n)
  show ?case
  proof (cases "n < 10")
    case True
    then show ?thesis by (simp add: digits_of.simps [of n] decimal_char_of)
  next
    case False
    with "1.IH" show ?thesis by (simp add: digits_of.simps [of n] decimal_char_of)
  qed
qed

lemma digits_of_nonempty: "digits_of n \<noteq> []"
  by (simp add: digits_of.simps [of n])

lemma zero_char_of: "0 < d \<Longrightarrow> d < 10 \<Longrightarrow> char_of (48 + d) \<noteq> CHR ''0''" for d :: nat
proof
  assume d: "0 < d" "d < 10" and "char_of (48 + d) = CHR ''0''"
  then have "(of_char (char_of (48 + d)) :: nat) = of_char CHR ''0''" by simp
  with d show False by simp
qed

lemma digits_of_no_leading_zero: "0 < n \<Longrightarrow> hd (digits_of n) \<noteq> CHR ''0''"
proof (induction n rule: digits_of.induct)
  case (1 n)
  show ?case
  proof (cases "n < 10")
    case True
    with "1.prems" show ?thesis by (simp add: digits_of.simps [of n] zero_char_of)
  next
    case False
    then have "0 < n div 10" by simp
    with False "1.IH" have "hd (digits_of (n div 10)) \<noteq> CHR ''0''" by simp
    with False show ?thesis by (simp add: digits_of.simps [of n] digits_of_nonempty)
  qed
qed

lemma str_int_positive:
  "0 < k \<Longrightarrow> str_int k \<noteq> [] \<and> list_all is_decimal_digit (str_int k)
     \<and> hd (str_int k) \<noteq> CHR ''0'' \<and> int (val_of (str_int k)) = k"
  by (simp add: str_int_def digits_of_nonempty digits_of_decimal digits_of_no_leading_zero
      val_of_digits_of)

lemma takeWhile_digits:
  "list_all is_decimal_digit i \<Longrightarrow> \<not> is_decimal_digit c \<Longrightarrow>
     takeWhile is_decimal_digit (i @ c # r) = i"
  by (simp add: list_all_iff takeWhile_append2)

lemma valid_customer_accepted: "valid_customer c \<Longrightarrow> accepted_customer c"
  by (auto simp: valid_customer_def accepted_customer_def spec_valid_phone_def
      accepted_phone_def py_isdigit_char_def list_all_iff)

section \<open>Evaluation of the sample inputs\<close>

lemmas eval_defs =
  Customer_init_def init_from_dict_def init_from_kwargs_def kwargs_dict_def kwargs_items_def
  required_fields_def bind_value_def validate_and_init_def and_then_def
  validate_customer_id_def validate_string_field_def validate_phone_def
  validate_contact_person_def py_strip_def py_isspace_def py_split_def clean_phone_def
  py_remove_def py_isdigit_def py_isdigit_char_def is_decimal_digit_def
  spec_valid_customer_id_def spec_valid_text_def accepted_phone_def
  spec_valid_contact_person_def strip_phone_chars_def accepted_customer_def
  set_customer_id_def set_name_def set_address_def set_phone_def set_contact_person_def
  get_customer_id_def get_name_def get_address_def get_phone_def get_contact_person_def

lemmas sample_defs =
  sample_dict_def sample_kwargs_def sample_customer_def sample_loads_def sample_text_def
  sample_text_zero_def sample_text_name_only_def sample_text_with_id_def quoted_def

lemma sample_loads_text: "sample_loads sample_text = Some (PDict sample_dict)"
  by (simp add: sample_loads_def)

lemma sample_loads_zero:
  "sample_loads sample_text_zero = Some (PDict ((PStr ''customer_id'', PInt 0) # tl sample_dict))"
  by (simp add: sample_defs)

lemma sample_loads_name_only:
  "sample_loads sample_text_name_only = Some (PDict [(PStr ''name'', PStr ''Acme'')])"
  by (simp add: sample_defs)

lemma sample_loads_array: "sample_loads ''[]'' = Some (PList [])"
  by (simp add: sample_defs)

lemma sample_loads_malformed: "sample_loads ''{'' = None"
  by (simp add: sample_defs)

lemma sample_customer_accepted: "accepted_customer sample_customer"
  by (simp add: eval_defs sample_customer_def)

section \<open>The four construction shapes agree\<close>

text \<open>
  Claim C1. For valid values of the five fields, the constructor succeeds on a mapping that
  holds them under the five required keys, on a text that \<open>json.loads\<close> decodes to that
  mapping, on the five values passed by position, and on named parameters that hold them;
  the four calls build the same object, and its five getters return the five values.
\<close>

theorem C1_constructors_agree:
  assumes "spec_valid_customer_id cid" and "spec_valid_text 2 n" and "spec_valid_text 5 a"
    and "accepted_phone p" and "spec_valid_contact_person cp"
    and "map_of d (PStr ''customer_id'') = Some cid" and "map_of d (PStr ''name'') = Some n"
    and "map_of d (PStr ''address'') = Some a" and "map_of d (PStr ''phone'') = Some p"
    and "map_of d (PStr ''contact_person'') = Some cp"
    and "loads s = Some (PDict d)"
    and "map_of kw ''customer_id'' = Some cid" and "map_of kw ''name'' = Some n"
    and "map_of kw ''address'' = Some a" and "map_of kw ''phone'' = Some p"
    and "map_of kw ''contact_person'' = Some cp"
  shows "\<exists>c. Customer_init loads [PDict d] [] = Inr c
           \<and> Customer_init loads [PStr s] [] = Inr c
           \<and> Customer_init loads [cid, n, a, p, cp] [] = Inr c
           \<and> Customer_init loads [] kw = Inr c
           \<and> get_customer_id c = cid \<and> get_name c = n \<and> get_address c = a
           \<and> get_phone c = p \<and> get_contact_person c = cp"
proof -
  let ?c = "\<lparr>customer_id = cid, name = n, address = a, phone = p, contact_person = cp\<rparr>"
  have v: "validate_and_init cid n a p cp = Inr ?c"
    using assms(1-5) by (simp add: validate_and_init_Inr)
  have dict: "init_from_dict (PDict d) = Inr ?c"
    using init_from_dict_present[OF assms(6-10)] v by simp
  have kws: "init_from_kwargs kw = Inr ?c"
    using init_from_kwargs_present[OF assms(12-16)] v by simp
  have "kw \<noteq> []" using assms(12) by auto
  then have "Customer_init loads [] kw = Inr ?c"
    using kws by (simp add: Customer_init_def)
  moreover have "Customer_init loads [PDict d] [] = Inr ?c"
    using dict by (simp add: Customer_init_def)
  moreover have "Customer_init loads [PStr s] [] = Inr ?c"
    using dict assms(11) by (simp add: Customer_init_def)
  moreover have "Customer_init loads [cid, n, a, p, cp] [] = Inr ?c"
    using v by (simp add: Customer_init_def)
  ultimately show ?thesis
    by (simp add: get_customer_id_def get_name_def get_address_def get_phone_def
        get_contact_person_def)
qed

text \<open>The four shapes on the sample values all build the sample object.\<close>

theorem C1_witness:
  "spec_valid_customer_id (PInt 1) \<and> spec_valid_text 2 (PStr ''Acme'')
   \<and> spec_valid_text 5 (PStr ''Main street 1'') \<and> accepted_phone (PStr ''12-34(56)'')
   \<and> spec_valid_contact_person (PStr ''Ivan Ivanov'')
   \<and> sample_loads sample_text = Some (PDict sample_dict)
   \<and> Customer_init sample_loads [PDict sample_dict] [] = Inr sample_customer
   \<and> Customer_init sample_loads [PStr sample_text] [] = Inr sample_customer
   \<and> Customer_init sample_loads
        [PInt 1, PStr ''Acme'', PStr ''Main street 1'', PStr ''12-34(56)'', PStr ''Ivan Ivanov''] []
      = Inr sample_customer
   \<and> Customer_init sample_loads [] sample_kwargs = Inr sample_customer"
proof -
  have h: "spec_valid_customer_id (PInt 1)" "spec_valid_text 2 (PStr ''Acme'')"
    "spec_valid_text 5 (PStr ''Main street 1'')" "accepted_phone (PStr ''12-34(56)'')"
    "spec_valid_contact_person (PStr ''Ivan Ivanov'')"
    by (simp_all add: eval_defs)
  have d: "map_of sample_dict (PStr ''customer_id'') = Some (PInt 1)"
    "map_of sample_dict (PStr ''name'') = Some (PStr ''Acme'')"
    "map_of sample_dict (PStr ''address'') = Some (PStr ''Main street 1'')"
    "map_of sample_dict (PStr ''phone'') = Some (PStr ''12-34(56)'')"
    "map_of sample_dict (PStr ''contact_person'') = Some (PStr ''Ivan Ivanov'')"
    by (simp_all add: sample_dict_def)
  have k: "map_of sample_kwargs ''customer_id'' = Some (PInt 1)"
    "map_of sample_kwargs ''name'' = Some (PStr ''Acme'')"
    "map_of sample_kwargs ''address'' = Some (PStr ''Main street 1'')"
    "map_of sample_kwargs ''phone'' = Some (PStr ''12-34(56)'')"
    "map_of sample_kwargs ''contact_person'' = Some (PStr ''Ivan Ivanov'')"
    by (simp_all add: sample_kwargs_def)
  from C1_constructors_agree [where loads = sample_loads and s = sample_text,
      OF h d sample_loads_text k]
  obtain c where c: "Customer_init sample_loads [PDict sample_dict] [] = Inr c"
    "Customer_init sample_loads [PStr sample_text] [] = Inr c"
    "Customer_init sample_loads
        [PInt 1, PStr ''Acme'', PStr ''Main street 1'', PStr ''12-34(56)'', PStr ''Ivan Ivanov''] []
      = Inr c"
    "Customer_init sample_loads [] sample_kwargs = Inr c"
    "get_customer_id c = PInt 1" "get_name c = PStr ''Acme''"
    "get_address c = PStr ''Main street 1''" "get_phone c = PStr ''12-34(56)''"
    "get_contact_person c = PStr ''Ivan Ivanov''"
    by blast
  from c(5-9) have "c = sample_customer"
    by (cases c) (simp add: sample_customer_def get_customer_id_def get_name_def
        get_address_def get_phone_def get_contact_person_def)
  with c(1-4) h sample_loads_text show ?thesis by simp
qed

section \<open>The validity invariant\<close>

text \<open>
  Claim C2, as amended. Every object the constructor returns satisfies the validity rules
  of the data model on its five fields, whatever the arguments, with the phone rule read
  with the digits of \<open>str.isdigit\<close> (the decimal digits and the superscript digits) instead
  of the decimal digits only; and each of the five setters, called on an object valid in
  this sense with any argument, leaves such an object, whether the call returns or raises.
\<close>

theorem C2_invariant:
  "(Customer_init loads args kwargs = Inr c \<longrightarrow> accepted_customer c)
   \<and> (accepted_customer c0 \<longrightarrow>
        accepted_customer (snd (set_customer_id c0 v))
        \<and> accepted_customer (snd (set_name c0 v))
        \<and> accepted_customer (snd (set_address c0 v))
        \<and> accepted_customer (snd (set_phone c0 v))
        \<and> accepted_customer (snd (set_contact_person c0 v)))"
proof (intro conjI impI)
  assume "Customer_init loads args kwargs = Inr c"
  then show "accepted_customer c"
    by (auto simp: Customer_init_def init_from_kwargs_dict validate_and_init_Inr
        accepted_customer_def[of "\<lparr>customer_id = _, name = _, address = _, phone = _, contact_person = _\<rparr>"]
        split: if_splits pyval.splits option.splits dest: init_from_dict_accepted)
next
  assume v: "accepted_customer c0"
  show "accepted_customer (snd (set_customer_id c0 v))"
    using v validate_customer_id_ok[of v]
    by (cases "validate_customer_id v") (auto simp: set_customer_id_def accepted_customer_def)
  show "accepted_customer (snd (set_name c0 v))"
    using v validate_string_field_ok[of 2 v Name]
    by (cases "validate_string_field v Name 2") (auto simp: set_name_def accepted_customer_def)
  show "accepted_customer (snd (set_address c0 v))"
    using v validate_string_field_ok[of 5 v Address]
    by (cases "validate_string_field v Address 5") (auto simp: set_address_def accepted_customer_def)
  show "accepted_customer (snd (set_phone c0 v))"
    using v validate_phone_ok[of v]
    by (cases "validate_phone v") (auto simp: set_phone_def accepted_customer_def)
  show "accepted_customer (snd (set_contact_person c0 v))"
    using v validate_contact_person_ok[of v]
    by (cases "validate_contact_person v") (auto simp: set_contact_person_def accepted_customer_def)
qed

text \<open>
  The sample object comes from the sample text and is valid; the string \<open>99999\<close> is refused
  as an identifier and as a contact person and stored as a name, an address and a phone.
\<close>

theorem C2_witness:
  "Customer_init sample_loads [PStr sample_text] [] = Inr sample_customer
   \<and> accepted_customer sample_customer
   \<and> snd (set_customer_id sample_customer (PStr ''99999'')) = sample_customer
   \<and> snd (set_phone sample_customer (PStr ''99999''))
       = sample_customer\<lparr>phone := PStr ''99999''\<rparr>
   \<and> accepted_customer (sample_customer\<lparr>phone := PStr ''99999''\<rparr>)
   \<and> snd (set_name sample_customer (PStr ''99999''))
       = sample_customer\<lparr>name := PStr ''99999''\<rparr>
   \<and> accepted_customer (sample_customer\<lparr>name := PStr ''99999''\<rparr>)
   \<and> snd (set_address sample_customer (PStr ''99999''))
       = sample_customer\<lparr>address := PStr ''99999''\<rparr>
   \<and> accepted_customer (sample_customer\<lparr>address := PStr ''99999''\<rparr>)
   \<and> snd (set_contact_person sample_customer (PStr ''99999'')) = sample_customer"
proof -
  have i: "Customer_init sample_loads [PStr sample_text] [] = Inr sample_customer"
    by (simp add: Customer_init_def sample_loads_text)
      (simp add: eval_defs sample_dict_def sample_customer_def)
  have v: "accepted_customer sample_customer"
    using C2_invariant [of sample_loads "[PStr sample_text]" "[]" sample_customer] i by simp
  have s: "snd (set_customer_id sample_customer (PStr ''99999'')) = sample_customer"
    "snd (set_phone sample_customer (PStr ''99999'')) = sample_customer\<lparr>phone := PStr ''99999''\<rparr>"
    "snd (set_name sample_customer (PStr ''99999'')) = sample_customer\<lparr>name := PStr ''99999''\<rparr>"
    "snd (set_address sample_customer (PStr ''99999''))
       = sample_customer\<lparr>address := PStr ''99999''\<rparr>"
    "snd (set_contact_person sample_customer (PStr ''99999'')) = sample_customer"
    by (simp_all add: eval_defs)
  show ?thesis
    using C2_invariant [of sample_loads "[PStr sample_text]" "[]" sample_customer
        sample_customer "PStr ''99999''"] i v s
    by simp
qed

text \<open>
  The constructor accepts a phone of five superscript twos, which are not decimal digits:
  the object it returns breaks the phone rule of the data model.
\<close>

theorem C2_counterexample:
  "Customer_init sample_loads
     [PInt 1, PStr ''Acme'', PStr ''Main street 1'', superscript_phone, PStr ''Ivan Ivanov''] []
     = Inr (sample_customer\<lparr>phone := superscript_phone\<rparr>)
   \<and> \<not> valid_customer (sample_customer\<lparr>phone := superscript_phone\<rparr>)"
  by (simp add: eval_defs sample_customer_def superscript_phone_def valid_customer_def
      spec_valid_phone_def)

section \<open>Setters are atomic\<close>

text \<open>
  Claim C3, as amended. Each of the five setters, called with an argument that breaks the
  validity rule of its field, raises an error and leaves the object, the field being set
  included, as it was before the call; for the phone the rule is read with the digits of
  \<open>str.isdigit\<close> instead of the decimal digits only.
\<close>

theorem C3_setter_atomicity:
  "(\<not> spec_valid_customer_id v \<longrightarrow> (\<exists>e. set_customer_id c v = (Inl e, c)))
   \<and> (\<not> spec_valid_text 2 v \<longrightarrow> (\<exists>e. set_name c v = (Inl e, c)))
   \<and> (\<not> spec_valid_text 5 v \<longrightarrow> (\<exists>e. set_address c v = (Inl e, c)))
   \<and> (\<not> accepted_phone v \<longrightarrow> (\<exists>e. set_phone c v = (Inl e, c)))
   \<and> (\<not> spec_valid_contact_person v \<longrightarrow> (\<exists>e. set_contact_person c v = (Inl e, c)))"
proof (intro conjI impI)
  assume "\<not> spec_valid_customer_id v"
  then obtain e where "validate_customer_id v = Inl e"
    using validate_customer_id_ok[of v] not_Inr_unit by blast
  then show "\<exists>e. set_customer_id c v = (Inl e, c)" by (simp add: set_customer_id_def)
next
  assume "\<not> spec_valid_text 2 v"
  then obtain e where "validate_string_field v Name 2 = Inl e"
    using validate_string_field_ok[of 2 v Name] not_Inr_unit by auto
  then show "\<exists>e. set_name c v = (Inl e, c)" by (simp add: set_name_def)
next
  assume "\<not> spec_valid_text 5 v"
  then obtain e where "validate_string_field v Address 5 = Inl e"
    using validate_string_field_ok[of 5 v Address] not_Inr_unit by auto
  then show "\<exists>e. set_address c v = (Inl e, c)" by (simp add: set_address_def)
next
  assume "\<not> accepted_phone v"
  then obtain e where "validate_phone v = Inl e"
    using validate_phone_ok[of v] not_Inr_unit by blast
  then show "\<exists>e. set_phone c v = (Inl e, c)" by (simp add: set_phone_def)
next
  assume "\<not> spec_valid_contact_person v"
  then obtain e where "validate_contact_person v = Inl e"
    using validate_contact_person_ok[of v] not_Inr_unit by blast
  then show "\<exists>e. set_contact_person c v = (Inl e, c)" by (simp add: set_contact_person_def)
qed

text \<open>The string \<open>A\<close> is invalid for each of the five fields of the sample object.\<close>

theorem C3_witness:
  "\<not> spec_valid_customer_id (PStr ''A'') \<and> \<not> spec_valid_text 2 (PStr ''A'')
   \<and> \<not> spec_valid_text 5 (PStr ''A'') \<and> \<not> accepted_phone (PStr ''A'')
   \<and> \<not> spec_valid_contact_person (PStr ''A'')
   \<and> set_customer_id sample_customer (PStr ''A'') = (Inl (TypeError CustomerId), sample_customer)
   \<and> set_name sample_customer (PStr ''A'') = (Inl (TooShortError Name 2), sample_customer)
   \<and> set_address sample_customer (PStr ''A'') = (Inl (TooShortError Address 5), sample_customer)
   \<and> set_phone sample_customer (PStr ''A'') = (Inl InvalidFormatError, sample_customer)
   \<and> set_contact_person sample_customer (PStr ''A'')
       = (Inl (TooShortError ContactPerson 2), sample_customer)"
  using C3_setter_atomicity [of "PStr ''A''" sample_customer]
  by (simp add: eval_defs)

text \<open>
  Five superscript twos are an invalid phone by the rule of the data model, yet \<open>set_phone\<close>
  returns normally and stores them.
\<close>

theorem C3_counterexample:
  "\<not> spec_valid_phone superscript_phone
   \<and> set_phone sample_customer superscript_phone
       = (Inr (), sample_customer\<lparr>phone := superscript_phone\<rparr>)
   \<and> phone (sample_customer\<lparr>phone := superscript_phone\<rparr>) \<noteq> phone sample_customer"
  by (simp add: eval_defs sample_customer_def superscript_phone_def spec_valid_phone_def)

section \<open>Dispatch of the constructor\<close>

text \<open>
  Claim C4, as amended. The constructor looks at the number of positional arguments first.
  With exactly one it takes the text or mapping path and with exactly five the positional
  path, ignoring the named parameters in both cases; with any other number it takes the
  named-parameters path as soon as one named parameter is given, ignoring the positional
  arguments. It fails with \<open>InvalidArgumentError\<close> exactly when the single positional argument
  is neither a text nor a mapping, or when the number of positional arguments is neither one
  nor five and no named parameter is given.
\<close>

theorem C4_dispatch:
  "(length args = 1 \<longrightarrow>
      Customer_init loads args kwargs = Customer_init loads args [])
   \<and> (length args = 5 \<longrightarrow>
      Customer_init loads args kwargs
        = validate_and_init (args ! 0) (args ! 1) (args ! 2) (args ! 3) (args ! 4))
   \<and> (length args \<noteq> 1 \<and> length args \<noteq> 5 \<and> kwargs \<noteq> [] \<longrightarrow>
      Customer_init loads args kwargs = init_from_kwargs kwargs)
   \<and> ((\<exists>p. Customer_init loads args kwargs = Inl (InvalidArgumentError p)) \<longleftrightarrow>
        (length args = 1 \<and> \<not> isinstance_str (args ! 0) \<and> \<not> isinstance_dict (args ! 0))
        \<or> (length args \<noteq> 1 \<and> length args \<noteq> 5 \<and> kwargs = []))"
proof (intro conjI impI)
  show "Customer_init loads args kwargs = Customer_init loads args []" if "length args = 1"
    using that by (simp add: Customer_init_def)
  show "Customer_init loads args kwargs
        = validate_and_init (args ! 0) (args ! 1) (args ! 2) (args ! 3) (args ! 4)"
    if "length args = 5"
    using that by (simp add: Customer_init_def)
  show "Customer_init loads args kwargs = init_from_kwargs kwargs"
    if "length args \<noteq> 1 \<and> length args \<noteq> 5 \<and> kwargs \<noteq> []"
    using that by (simp add: Customer_init_def)
  have nd: "r \<noteq> Inl (InvalidArgumentError p)"
    if "\<And>e. r = Inl e \<Longrightarrow> \<not> is_dispatch_error e" for r :: "error + customer" and p
    using that by (cases r) auto
  show "(\<exists>p. Customer_init loads args kwargs = Inl (InvalidArgumentError p)) \<longleftrightarrow>
        (length args = 1 \<and> \<not> isinstance_str (args ! 0) \<and> \<not> isinstance_dict (args ! 0))
        \<or> (length args \<noteq> 1 \<and> length args \<noteq> 5 \<and> kwargs = [])"
  proof (cases "length args = 1")
    case True
    then show ?thesis
      using nd[OF init_from_dict_error]
      by (cases "args ! 0") (auto simp: Customer_init_def split: option.splits)
  next
    case False
    then show ?thesis
      using nd[OF init_from_kwargs_error] nd[OF validate_error_not_dispatch]
      by (auto simp: Customer_init_def)
  qed
qed

text \<open>
  The dispatch at sample calls: two positional arguments with the five named parameters,
  named parameters beside a mapping, an argument of an unsupported type, two positional
  arguments alone, and a single named parameter.
\<close>

theorem C4_witness:
  "Customer_init sample_loads [PInt 7, PInt 8] sample_kwargs = init_from_kwargs sample_kwargs
   \<and> Customer_init sample_loads [PDict sample_dict] [(''name'', PNone)]
       = Customer_init sample_loads [PDict sample_dict] []
   \<and> Customer_init sample_loads [PNone] sample_kwargs = Inl (InvalidArgumentError UnsupportedType)
   \<and> Customer_init sample_loads [PInt 7, PInt 8] [] = Inl (InvalidArgumentError WrongCount)
   \<and> Customer_init sample_loads [] [(''name'', PStr ''Acme'')]
       = Inl (MissingFieldError [''customer_id'', ''address'', ''phone'', ''contact_person''])"
proof -
  have a: "Customer_init sample_loads [PInt 7, PInt 8] sample_kwargs
      = init_from_kwargs sample_kwargs"
    using C4_dispatch [of "[PInt 7, PInt 8]" sample_loads sample_kwargs]
    by (simp add: sample_kwargs_def)
  have b: "Customer_init sample_loads [PDict sample_dict] [(''name'', PNone)]
       = Customer_init sample_loads [PDict sample_dict] []"
    using C4_dispatch [of "[PDict sample_dict]" sample_loads "[(''name'', PNone)]"] by simp
  have "\<exists>p. Customer_init sample_loads [PNone] sample_kwargs = Inl (InvalidArgumentError p)"
    using C4_dispatch [of "[PNone]" sample_loads sample_kwargs,
        THEN conjunct2, THEN conjunct2, THEN conjunct2]
    by simp
  then have c: "Customer_init sample_loads [PNone] sample_kwargs
      = Inl (InvalidArgumentError UnsupportedType)"
    by (simp add: Customer_init_def)
  have "\<exists>p. Customer_init sample_loads [PInt 7, PInt 8] [] = Inl (InvalidArgumentError p)"
    using C4_dispatch [of "[PInt 7, PInt 8]" sample_loads "[]",
        THEN conjunct2, THEN conjunct2, THEN conjunct2]
    by simp
  then have d: "Customer_init sample_loads [PInt 7, PInt 8] [] = Inl (InvalidArgumentError WrongCount)"
    by (simp add: Customer_init_def)
  have "Customer_init sample_loads [] [(''name'', PStr ''Acme'')]
      = init_from_kwargs [(''name'', PStr ''Acme'')]"
    using C4_dispatch [of "[]" sample_loads "[(''name'', PStr ''Acme'')]"] by simp
  then have e: "Customer_init sample_loads [] [(''name'', PStr ''Acme'')]
       = Inl (MissingFieldError [''customer_id'', ''address'', ''phone'', ''contact_person''])"
    by (simp add: eval_defs)
  from a b c d e show ?thesis by simp
qed

text \<open>
  A call that mixes two positional arguments with the five named parameters is not
  rejected: it builds the object from the named parameters.
\<close>

theorem C4_counterexample:
  "Customer_init sample_loads [PInt 7, PInt 8] sample_kwargs = Inr sample_customer"
  by (simp add: Customer_init_def init_from_kwargs_def kwargs_dict_def kwargs_items_def sample_kwargs_def
      required_fields_def bind_value_def validate_and_init_def and_then_def
      validate_customer_id_def validate_string_field_def validate_phone_def
      validate_contact_person_def py_strip_def py_isspace_def py_split_def clean_phone_def
      py_remove_def py_isdigit_def py_isdigit_char_def is_decimal_digit_def sample_customer_def)

section \<open>Phone validation\<close>

text \<open>
  Claim C5, as amended. Phone validation removes exactly the characters space, \<open>(\<close>, \<open>)\<close>
  and \<open>-\<close>; it fails with \<open>InvalidFormatError\<close> when what remains is empty or has a character
  that \<open>str.isdigit\<close> rejects, and with \<open>TooShortError\<close> when what remains is one to four such
  digits. \<open>set_phone\<close> raises the error of the validation and leaves the object unchanged,
  or stores the argument as given; the constructor stores the phone argument as given, and
  raises the error of the phone validation when the three fields before it are valid.
\<close>

theorem C5_phone:
  "validate_phone (PStr ph) =
     (if strip_phone_chars ph = [] \<or> \<not> list_all py_isdigit_char (strip_phone_chars ph)
        then Inl InvalidFormatError
      else if length (strip_phone_chars ph) < 5 then Inl (TooShortError Phone 5)
      else Inr ())
   \<and> clean_phone ph = strip_phone_chars ph
   \<and> (validate_phone v = Inl e \<longrightarrow> set_phone c v = (Inl e, c))
   \<and> (validate_phone v = Inr () \<longrightarrow>
        fst (set_phone c v) = Inr () \<and> get_phone (snd (set_phone c v)) = v)
   \<and> (Customer_init loads [cid, n, a, v, cp] kwargs = Inr c' \<longrightarrow> get_phone c' = v)
   \<and> (spec_valid_customer_id cid \<and> spec_valid_text 2 n \<and> spec_valid_text 5 a
        \<and> validate_phone v = Inl e \<longrightarrow>
        Customer_init loads [cid, n, a, v, cp] kwargs = Inl e)"
proof (intro conjI impI)
  show "validate_phone (PStr ph) =
     (if strip_phone_chars ph = [] \<or> \<not> list_all py_isdigit_char (strip_phone_chars ph)
        then Inl InvalidFormatError
      else if length (strip_phone_chars ph) < 5 then Inl (TooShortError Phone 5)
      else Inr ())"
    by (simp add: validate_phone_def clean_phone_strip py_isdigit_def)
  show "clean_phone ph = strip_phone_chars ph" by (rule clean_phone_strip)
  show "set_phone c v = (Inl e, c)" if "validate_phone v = Inl e"
    using that by (simp add: set_phone_def)
  show "fst (set_phone c v) = Inr ()" if "validate_phone v = Inr ()"
    using that by (simp add: set_phone_def)
  show "get_phone (snd (set_phone c v)) = v" if "validate_phone v = Inr ()"
    using that by (simp add: set_phone_def get_phone_def)
  show "get_phone c' = v" if "Customer_init loads [cid, n, a, v, cp] kwargs = Inr c'"
    using that by (simp add: Customer_init_def validate_and_init_Inr get_phone_def)
  show "Customer_init loads [cid, n, a, v, cp] kwargs = Inl e"
    if "spec_valid_customer_id cid \<and> spec_valid_text 2 n \<and> spec_valid_text 5 a
        \<and> validate_phone v = Inl e"
    using that validate_customer_id_ok[of cid] validate_string_field_ok[of 2 n Name]
      validate_string_field_ok[of 5 a Address]
    by (simp add: Customer_init_def validate_and_init_def and_then_def)
qed

text \<open>
  The phone \<open>12-34(56)\<close> is accepted and returned unchanged by the getter; \<open>12\<close> is too short
  and \<open>12a45\<close> is malformed.
\<close>

theorem C5_witness:
  "validate_phone (PStr ''12-34(56)'') = Inr ()
   \<and> clean_phone ''12-34(56)'' = ''123456''
   \<and> fst (set_phone sample_customer (PStr ''12-34(56)'')) = Inr ()
   \<and> get_phone (snd (set_phone sample_customer (PStr ''12-34(56)''))) = PStr ''12-34(56)''
   \<and> Customer_init sample_loads
        [PInt 1, PStr ''Acme'', PStr ''Main street 1'', PStr ''12-34(56)'', PStr ''Ivan Ivanov''] []
      = Inr sample_customer
   \<and> get_phone sample_customer = PStr ''12-34(56)''
   \<and> validate_phone (PStr ''12'') = Inl (TooShortError Phone 5)
   \<and> set_phone sample_customer (PStr ''12'') = (Inl (TooShortError Phone 5), sample_customer)
   \<and> Customer_init sample_loads
        [PInt 1, PStr ''Acme'', PStr ''Main street 1'', PStr ''12'', PStr ''Ivan Ivanov''] []
      = Inl (TooShortError Phone 5)
   \<and> validate_phone (PStr ''12a45'') = Inl InvalidFormatError"
proof -
  have i: "Customer_init sample_loads
        [PInt 1, PStr ''Acme'', PStr ''Main street 1'', PStr ''12-34(56)'', PStr ''Ivan Ivanov''] []
      = Inr sample_customer"
    by (simp add: eval_defs sample_customer_def)
  have s: "strip_phone_chars ''12-34(56)'' = ''123456''" "strip_phone_chars ''12'' = ''12''"
    "strip_phone_chars ''12a45'' = ''12a45''"
    by (simp_all add: strip_phone_chars_def)
  have h: "spec_valid_customer_id (PInt 1)" "spec_valid_text 2 (PStr ''Acme'')"
    "spec_valid_text 5 (PStr ''Main street 1'')"
    by (simp_all add: eval_defs)
  have ok: "validate_phone (PStr ''12-34(56)'') = Inr ()"
    using C5_phone [of "''12-34(56)''"] s
    by (simp add: py_isdigit_char_def is_decimal_digit_def)
  have short: "validate_phone (PStr ''12'') = Inl (TooShortError Phone 5)"
    using C5_phone [of "''12''"] s by (simp add: py_isdigit_char_def is_decimal_digit_def)
  have bad: "validate_phone (PStr ''12a45'') = Inl InvalidFormatError"
    using C5_phone [of "''12a45''"] s by (simp add: py_isdigit_char_def is_decimal_digit_def)
  have t1: "clean_phone ''12-34(56)'' = ''123456''"
    using C5_phone [of "''12-34(56)''"] s by simp
  have t2: "fst (set_phone sample_customer (PStr ''12-34(56)'')) = Inr ()
     \<and> get_phone (snd (set_phone sample_customer (PStr ''12-34(56)''))) = PStr ''12-34(56)''
     \<and> get_phone sample_customer = PStr ''12-34(56)''"
    using C5_phone [of _ "PStr ''12-34(56)''" _ sample_customer sample_loads "PInt 1"
        "PStr ''Acme''" "PStr ''Main street 1''" "PStr ''Ivan Ivanov''" "[]" sample_customer]
      ok i
    by simp
  have t3: "set_phone sample_customer (PStr ''12'') = (Inl (TooShortError Phone 5), sample_customer)
     \<and> Customer_init sample_loads
        [PInt 1, PStr ''Acme'', PStr ''Main street 1'', PStr ''12'', PStr ''Ivan Ivanov''] []
      = Inl (TooShortError Phone 5)"
    using C5_phone [of _ "PStr ''12''" "TooShortError Phone 5" sample_customer sample_loads
        "PInt 1" "PStr ''Acme''" "PStr ''Main street 1''" "PStr ''Ivan Ivanov''" "[]"]
      short h
    by simp
  from ok short bad t1 t2 t3 i show ?thesis by simp
qed

text \<open>
  The rule with "all decimal digits" read literally differs from the validator on two
  inputs: the empty phone, which the validator rejects as malformed and not as too short,
  and five superscript twos, which the validator accepts.
\<close>

theorem C5_counterexample:
  "validate_phone (PStr '''') = Inl InvalidFormatError
   \<and> spec_phone_check '''' = Inl (TooShortError Phone 5)
   \<and> validate_phone (PStr [CHR 0xB2, CHR 0xB2, CHR 0xB2, CHR 0xB2, CHR 0xB2]) = Inr ()
   \<and> spec_phone_check [CHR 0xB2, CHR 0xB2, CHR 0xB2, CHR 0xB2, CHR 0xB2] = Inl InvalidFormatError"
  by (simp add: validate_phone_def spec_phone_check_def clean_phone_def py_remove_def
      py_isdigit_def py_isdigit_char_def is_decimal_digit_def strip_phone_chars_def)

section \<open>Missing keys\<close>

text \<open>
  Claim C6. When a mapping lacks one of the five required keys, the constructor fails with
  \<open>MissingFieldError\<close> on the mapping and on every text that decodes to it; the error lists
  the required keys that are absent, all of them and nothing else, and it is raised whatever
  the values under the keys that are present.
\<close>

theorem C6_missing_keys:
  "(\<not> has_required d \<longrightarrow>
      absent_keys d \<noteq> []
      \<and> Customer_init loads [PDict d] kwargs = Inl (MissingFieldError (absent_keys d))
      \<and> (loads s = Some (PDict d) \<longrightarrow>
           Customer_init loads [PStr s] kwargs = Inl (MissingFieldError (absent_keys d))))
   \<and> set (absent_keys d) = {k \<in> set required_fields. map_of d (PStr k) = None}"
  by (auto simp: Customer_init_def init_from_dict_missing absent_keys_Nil)
    (auto simp: absent_keys_def)

text \<open>
  A mapping without the phone key, whose identifier, name and contact person are invalid,
  fails with the missing phone key; the text of a mapping with the name only fails with
  the four other keys.
\<close>

theorem C6_witness:
  "\<not> has_required [(PStr ''customer_id'', PInt 0), (PStr ''name'', PStr ''A''),
        (PStr ''address'', PStr ''Main street 1''), (PStr ''contact_person'', PStr ''Ivanov'')]
   \<and> Customer_init sample_loads
        [PDict [(PStr ''customer_id'', PInt 0), (PStr ''name'', PStr ''A''),
          (PStr ''address'', PStr ''Main street 1''), (PStr ''contact_person'', PStr ''Ivanov'')]] []
       = Inl (MissingFieldError [''phone''])
   \<and> sample_loads sample_text_name_only = Some (PDict [(PStr ''name'', PStr ''Acme'')])
   \<and> Customer_init sample_loads [PStr sample_text_name_only] []
       = Inl (MissingFieldError [''customer_id'', ''address'', ''phone'', ''contact_person''])"
proof -
  let ?d = "[(PStr ''customer_id'', PInt 0), (PStr ''name'', PStr ''A''),
        (PStr ''address'', PStr ''Main street 1''), (PStr ''contact_person'', PStr ''Ivanov'')]"
  let ?e = "[(PStr ''name'', PStr ''Acme'')]"
  have h: "\<not> has_required ?d" "\<not> has_required ?e"
    by (simp_all add: has_required_def required_fields_def)
  have a: "absent_keys ?d = [''phone'']"
    "absent_keys ?e = [''customer_id'', ''address'', ''phone'', ''contact_person'']"
    by (simp_all add: absent_keys_def required_fields_def)
  show ?thesis
    using C6_missing_keys [of ?d sample_loads "[]" sample_text_name_only]
      C6_missing_keys [of ?e sample_loads "[]" sample_text_name_only]
      h a sample_loads_name_only
    by simp
qed

section \<open>The identifier\<close>

text \<open>
  Claim C7. The identifier check fails with \<open>TypeError\<close> on a value that is not an integer
  and with \<open>RangeError\<close> on an integer that is zero or negative. Whatever error it gives is
  the error of \<open>set_customer_id\<close>, which leaves the object unchanged, and of the constructor
  in its four shapes: five positional values, a mapping with the five keys, a text that
  decodes to such a mapping, and named parameters with the five keys.
\<close>

theorem C7_customer_id:
  "(\<not> isinstance_int cid \<longrightarrow> validate_customer_id cid = Inl (TypeError CustomerId))
   \<and> (isinstance_int cid \<and> int_of cid \<le> 0 \<longrightarrow> validate_customer_id cid = Inl RangeError)
   \<and> (validate_customer_id cid = Inl e \<longrightarrow>
        Customer_init loads [cid, n, a, p, cp] kwargs = Inl e
        \<and> set_customer_id c cid = (Inl e, c)
        \<and> (map_of d (PStr ''customer_id'') = Some cid \<and> has_required d \<longrightarrow>
             Customer_init loads [PDict d] kwargs = Inl e
             \<and> (loads s = Some (PDict d) \<longrightarrow> Customer_init loads [PStr s] kwargs = Inl e))
        \<and> (map_of kw ''customer_id'' = Some cid \<and> has_required (kwargs_items kw)
             \<longrightarrow> Customer_init loads [] kw = Inl e))"
proof -
  have vi: "validate_and_init cid n' a' p' cp' = Inl e" if "validate_customer_id cid = Inl e"
    for n' a' p' cp'
    using that by (simp add: validate_and_init_def and_then_def)
  have di: "init_from_dict (PDict d') = Inl e"
    if "validate_customer_id cid = Inl e" "map_of d' (PStr ''customer_id'') = Some cid"
      "has_required d'" for d'
  proof -
    from that(3) obtain cid' n' a' p' cp' where l:
      "map_of d' (PStr ''customer_id'') = Some cid'" "map_of d' (PStr ''name'') = Some n'"
      "map_of d' (PStr ''address'') = Some a'" "map_of d' (PStr ''phone'') = Some p'"
      "map_of d' (PStr ''contact_person'') = Some cp'"
      by (rule has_required_lookup)
    with that(2) have "cid' = cid" by simp
    with init_from_dict_present[OF l] vi[OF that(1)] show ?thesis by simp
  qed
  have kwne: "kw \<noteq> []" if "map_of kw ''customer_id'' = Some cid"
    using that by auto
  show ?thesis
    apply (intro conjI impI)
    subgoal by (simp add: validate_customer_id_def)
    subgoal by (simp add: validate_customer_id_def)
    subgoal by (simp add: Customer_init_def vi)
    subgoal by (simp add: set_customer_id_def)
    subgoal by (simp add: Customer_init_def di)
    subgoal by (simp add: Customer_init_def di)
    subgoal using di[of "kwargs_items kw"] kwne
      by (simp add: Customer_init_def init_from_kwargs_dict kwargs_dict_def map_of_kwargs)
    done
qed

text \<open>The identifiers 0 and -3 and the string \<open>1\<close>, through the setter and the four shapes.\<close>

theorem C7_witness:
  "validate_customer_id (PInt 0) = Inl RangeError
   \<and> validate_customer_id (PInt (- 3)) = Inl RangeError
   \<and> validate_customer_id (PStr ''1'') = Inl (TypeError CustomerId)
   \<and> Customer_init sample_loads
        [PInt 0, PStr ''Acme'', PStr ''Main street 1'', PStr ''12-34(56)'', PStr ''Ivan Ivanov''] []
       = Inl RangeError
   \<and> set_customer_id sample_customer (PInt 0) = (Inl RangeError, sample_customer)
   \<and> Customer_init sample_loads [PDict ((PStr ''customer_id'', PInt 0) # tl sample_dict)] []
       = Inl RangeError
   \<and> Customer_init sample_loads [PStr sample_text_zero] [] = Inl RangeError
   \<and> Customer_init sample_loads [] ((''customer_id'', PInt 0) # tl sample_kwargs)
       = Inl RangeError"
proof -
  let ?d = "(PStr ''customer_id'', PInt 0) # tl sample_dict"
  let ?kw = "(''customer_id'', PInt 0) # tl sample_kwargs"
  have z: "validate_customer_id (PInt 0) = Inl RangeError"
    using C7_customer_id [of "PInt 0"] by simp
  have n: "validate_customer_id (PInt (- 3)) = Inl RangeError"
    using C7_customer_id [of "PInt (- 3)"] by simp
  have t: "validate_customer_id (PStr ''1'') = Inl (TypeError CustomerId)"
    using C7_customer_id [of "PStr ''1''"] by simp
  have h: "map_of ?d (PStr ''customer_id'') = Some (PInt 0)" "has_required ?d"
    "map_of ?kw ''customer_id'' = Some (PInt 0)"
    "has_required (kwargs_items ?kw)"
    by (simp_all add: has_required_def required_fields_def sample_dict_def sample_kwargs_def
        kwargs_items_def)
  show ?thesis
    using C7_customer_id [of "PInt 0" RangeError sample_loads "PStr ''Acme''"
        "PStr ''Main street 1''" "PStr ''12-34(56)''" "PStr ''Ivan Ivanov''" "[]"
        sample_customer ?d sample_text_zero ?kw]
      z n t h sample_loads_zero
    by simp
qed

section \<open>The contact person\<close>

text \<open>
  Claim C8. The contact person check raises the error of the generic string check with
  minimum length 2 when that check fails; when it passes, the check fails with
  \<open>MalformedNameError\<close> exactly when the trimmed value splits on whitespace into fewer than
  two tokens, and succeeds otherwise. \<open>set_contact_person\<close> and the constructor raise the
  error of this check.
\<close>

theorem C8_contact_person:
  "(validate_contact_person v = Inl MalformedNameError \<longleftrightarrow>
      validate_string_field v ContactPerson 2 = Inr ()
      \<and> length (py_split (py_strip (str_of v))) < 2)
   \<and> (validate_string_field v ContactPerson 2 = Inl e \<longrightarrow> validate_contact_person v = Inl e)
   \<and> (validate_string_field v ContactPerson 2 = Inr ()
        \<and> 2 \<le> length (py_split (py_strip (str_of v))) \<longrightarrow> validate_contact_person v = Inr ())
   \<and> (validate_contact_person v = Inl e \<longrightarrow> set_contact_person c v = (Inl e, c))
   \<and> (validate_contact_person v = Inr () \<longrightarrow>
        set_contact_person c v = (Inr (), c\<lparr>contact_person := v\<rparr>))
   \<and> (spec_valid_customer_id cid \<and> spec_valid_text 2 n \<and> spec_valid_text 5 a
        \<and> accepted_phone p \<and> validate_contact_person v = Inl e \<longrightarrow>
        Customer_init loads [cid, n, a, p, v] kwargs = Inl e)"
proof (intro conjI impI)
  show "validate_contact_person v = Inl MalformedNameError \<longleftrightarrow>
      validate_string_field v ContactPerson 2 = Inr ()
      \<and> length (py_split (py_strip (str_of v))) < 2"
    by (auto simp: validate_contact_person_def and_then_def validate_string_field_def
        split: sum.splits if_splits)
  show "validate_contact_person v = Inl e" if "validate_string_field v ContactPerson 2 = Inl e"
    using that by (simp add: validate_contact_person_def and_then_def)
  show "validate_contact_person v = Inr ()"
    if "validate_string_field v ContactPerson 2 = Inr ()
        \<and> 2 \<le> length (py_split (py_strip (str_of v)))"
    using that by (simp add: validate_contact_person_def and_then_def)
  show "set_contact_person c v = (Inl e, c)" if "validate_contact_person v = Inl e"
    using that by (simp add: set_contact_person_def)
  show "set_contact_person c v = (Inr (), c\<lparr>contact_person := v\<rparr>)"
    if "validate_contact_person v = Inr ()"
    using that by (simp add: set_contact_person_def)
  show "Customer_init loads [cid, n, a, p, v] kwargs = Inl e"
    if "spec_valid_customer_id cid \<and> spec_valid_text 2 n \<and> spec_valid_text 5 a
        \<and> accepted_phone p \<and> validate_contact_person v = Inl e"
    using that validate_customer_id_ok[of cid] validate_string_field_ok[of 2 n Name]
      validate_string_field_ok[of 5 a Address] validate_phone_ok[of p]
    by (simp add: Customer_init_def validate_and_init_def and_then_def)
qed

text \<open>\<open>Ivanov\<close> is one token and is rejected; \<open>Ivan Ivanov\<close> is accepted.\<close>

theorem C8_witness:
  "validate_string_field (PStr ''Ivanov'') ContactPerson 2 = Inr ()
   \<and> py_split (py_strip ''Ivanov'') = [''Ivanov'']
   \<and> validate_contact_person (PStr ''Ivanov'') = Inl MalformedNameError
   \<and> set_contact_person sample_customer (PStr ''Ivanov'')
       = (Inl MalformedNameError, sample_customer)
   \<and> Customer_init sample_loads
        [PInt 1, PStr ''Acme'', PStr ''Main street 1'', PStr ''12-34(56)'', PStr ''Ivanov''] []
       = Inl MalformedNameError
   \<and> py_split (py_strip ''Ivan Ivanov'') = [''Ivan'', ''Ivanov'']
   \<and> validate_contact_person (PStr ''Ivan Ivanov'') = Inr ()
   \<and> validate_contact_person (PStr ''I'') = Inl (TooShortError ContactPerson 2)"
proof -
  have s: "validate_string_field (PStr ''Ivanov'') ContactPerson 2 = Inr ()"
    "validate_string_field (PStr ''Ivan Ivanov'') ContactPerson 2 = Inr ()"
    "validate_string_field (PStr ''I'') ContactPerson 2 = Inl (TooShortError ContactPerson 2)"
    by (simp_all add: validate_string_field_def py_strip_def py_isspace_def)
  have p: "py_split (py_strip ''Ivanov'') = [''Ivanov'']"
    "py_split (py_strip ''Ivan Ivanov'') = [''Ivan'', ''Ivanov'']"
    by (simp_all add: py_split_def py_strip_def py_isspace_def)
  have h: "spec_valid_customer_id (PInt 1)" "spec_valid_text 2 (PStr ''Acme'')"
    "spec_valid_text 5 (PStr ''Main street 1'')" "accepted_phone (PStr ''12-34(56)'')"
    by (simp_all add: eval_defs)
  have m: "validate_contact_person (PStr ''Ivanov'') = Inl MalformedNameError"
    using C8_contact_person [of "PStr ''Ivanov''"] s p by simp
  have ok: "validate_contact_person (PStr ''Ivan Ivanov'') = Inr ()"
    using C8_contact_person [of "PStr ''Ivan Ivanov''"] s p by simp
  have short: "validate_contact_person (PStr ''I'') = Inl (TooShortError ContactPerson 2)"
    using C8_contact_person [of "PStr ''I''" "TooShortError ContactPerson 2"] s by simp
  have c: "set_contact_person sample_customer (PStr ''Ivanov'')
       = (Inl MalformedNameError, sample_customer)
     \<and> Customer_init sample_loads
        [PInt 1, PStr ''Acme'', PStr ''Main street 1'', PStr ''12-34(56)'', PStr ''Ivanov''] []
       = Inl MalformedNameError"
    using C8_contact_person [of "PStr ''Ivanov''" MalformedNameError sample_customer "PInt 1"
        "PStr ''Acme''" "PStr ''Main street 1''" "PStr ''12-34(56)''" sample_loads "[]"] m h
    by simp
  from s p m ok short c show ?thesis by simp
qed

section \<open>The textual representation\<close>

text \<open>
  Claim C9. For a valid object, \<open>__str__\<close> returns the template
  \<open>Customer: ID=<id>, Name='<name>', Phone='<phone>', Contact='<contact>'\<close> with the stored
  name, phone and contact person in it, and for the identifier its decimal numeral (digits
  only, no leading zero, denoting the stored integer) or \<open>True\<close> when the stored identifier is
  the boolean; the result does not depend on the address. The object is taken valid under
  the wider phone rule, which every constructed object satisfies.
\<close>

theorem C9_str:
  "(accepted_customer c \<longrightarrow>
      (\<exists>i. Customer_str c =
            Some (''Customer: ID='' @ i
                  @ '', Name='' @ [CHR 0x27] @ str_of (name c) @ [CHR 0x27]
                  @ '', Phone='' @ [CHR 0x27] @ str_of (phone c) @ [CHR 0x27]
                  @ '', Contact='' @ [CHR 0x27] @ str_of (contact_person c) @ [CHR 0x27])
        \<and> (customer_id c = PBool True \<longrightarrow> i = ''True'')
        \<and> (\<forall>k. customer_id c = PInt k \<longrightarrow>
              i \<noteq> [] \<and> list_all is_decimal_digit i \<and> hd i \<noteq> CHR ''0''
              \<and> int (val_of i) = k))
      \<and> name c = PStr (str_of (name c)) \<and> phone c = PStr (str_of (phone c))
      \<and> contact_person c = PStr (str_of (contact_person c))
      \<and> (customer_id c = PBool True \<or> (\<exists>k. 0 < k \<and> customer_id c = PInt k)))
   \<and> Customer_str (c\<lparr>address := x\<rparr>) = Customer_str c"
proof (intro conjI impI)
  assume v: "accepted_customer c"
  then have s: "isinstance_str (name c)" "isinstance_str (phone c)"
    "isinstance_str (contact_person c)"
    by (simp_all add: accepted_customer_def spec_valid_text_def accepted_phone_def
        spec_valid_contact_person_def)
  then have n: "py_format (name c) = Some (str_of (name c))"
    and p: "py_format (phone c) = Some (str_of (phone c))"
    and k: "py_format (contact_person c) = Some (str_of (contact_person c))"
    by (simp_all add: isinstance_str_format)
  from v have id: "spec_valid_customer_id (customer_id c)"
    by (simp add: accepted_customer_def)
  show "customer_id c = PBool True \<or> (\<exists>k. 0 < k \<and> customer_id c = PInt k)"
    using id by (cases "customer_id c") (auto simp: spec_valid_customer_id_def split: if_splits)
  show "name c = PStr (str_of (name c))" using s(1) by (cases "name c") auto
  show "phone c = PStr (str_of (phone c))" using s(2) by (cases "phone c") auto
  show "contact_person c = PStr (str_of (contact_person c))"
    using s(3) by (cases "contact_person c") auto
  let ?i = "if customer_id c = PBool True then ''True'' else str_int (int_of (customer_id c))"
  have i: "py_format (customer_id c) = Some ?i"
    using id by (rule valid_id_format)
  have "Customer_str c =
            Some (''Customer: ID='' @ ?i
                  @ '', Name='' @ [CHR 0x27] @ str_of (name c) @ [CHR 0x27]
                  @ '', Phone='' @ [CHR 0x27] @ str_of (phone c) @ [CHR 0x27]
                  @ '', Contact='' @ [CHR 0x27] @ str_of (contact_person c) @ [CHR 0x27])"
    using i n p k by (simp add: Customer_str_def)
  moreover have "customer_id c = PBool True \<longrightarrow> ?i = ''True''" by simp
  moreover have "\<forall>k. customer_id c = PInt k \<longrightarrow>
              ?i \<noteq> [] \<and> list_all is_decimal_digit ?i \<and> hd ?i \<noteq> CHR ''0''
              \<and> int (val_of ?i) = k"
  proof (intro allI impI)
    fix k assume c: "customer_id c = PInt k"
    with id have "0 < k" by (simp add: spec_valid_customer_id_def)
    with c show "?i \<noteq> [] \<and> list_all is_decimal_digit ?i \<and> hd ?i \<noteq> CHR ''0''
              \<and> int (val_of ?i) = k"
      using str_int_positive [of k] by simp
  qed
  ultimately show "\<exists>i. Customer_str c =
            Some (''Customer: ID='' @ i
                  @ '', Name='' @ [CHR 0x27] @ str_of (name c) @ [CHR 0x27]
                  @ '', Phone='' @ [CHR 0x27] @ str_of (phone c) @ [CHR 0x27]
                  @ '', Contact='' @ [CHR 0x27] @ str_of (contact_person c) @ [CHR 0x27])
        \<and> (customer_id c = PBool True \<longrightarrow> i = ''True'')
        \<and> (\<forall>k. customer_id c = PInt k \<longrightarrow>
              i \<noteq> [] \<and> list_all is_decimal_digit i \<and> hd i \<noteq> CHR ''0''
              \<and> int (val_of i) = k)"
    by blast
next
  show "Customer_str (c\<lparr>address := x\<rparr>) = Customer_str c"
    by (simp add: Customer_str_def)
qed

text \<open>
  The text of the sample object with the identifier 1205, also after its address has
  changed, and with the identifier \<open>True\<close>.
\<close>

theorem C9_witness:
  "accepted_customer (sample_customer\<lparr>customer_id := PInt 1205\<rparr>)
   \<and> Customer_str (sample_customer\<lparr>customer_id := PInt 1205\<rparr>) =
       Some (''Customer: ID=1205, Name='' @ [CHR 0x27] @ ''Acme'' @ [CHR 0x27]
             @ '', Phone='' @ [CHR 0x27] @ ''12-34(56)'' @ [CHR 0x27]
             @ '', Contact='' @ [CHR 0x27] @ ''Ivan Ivanov'' @ [CHR 0x27])
   \<and> int (val_of ''1205'') = 1205
   \<and> Customer_str (sample_customer\<lparr>customer_id := PInt 1205, address := PStr ''Other road 22''\<rparr>)
       = Customer_str (sample_customer\<lparr>customer_id := PInt 1205\<rparr>)
   \<and> Customer_str (sample_customer\<lparr>customer_id := PBool True\<rparr>) =
       Some (''Customer: ID=True, Name='' @ [CHR 0x27] @ ''Acme'' @ [CHR 0x27]
             @ '', Phone='' @ [CHR 0x27] @ ''12-34(56)'' @ [CHR 0x27]
             @ '', Contact='' @ [CHR 0x27] @ ''Ivan Ivanov'' @ [CHR 0x27])"
proof -
  let ?c = "sample_customer\<lparr>customer_id := PInt 1205\<rparr>"
  let ?b = "sample_customer\<lparr>customer_id := PBool True\<rparr>"
  have a: "accepted_customer ?c" "accepted_customer ?b"
    by (simp_all add: eval_defs sample_customer_def)
  have f: "customer_id ?c = PInt 1205" "str_of (name ?c) = ''Acme''"
    "str_of (phone ?c) = ''12-34(56)''" "str_of (contact_person ?c) = ''Ivan Ivanov''"
    "customer_id ?b = PBool True" "str_of (name ?b) = ''Acme''"
    "str_of (phone ?b) = ''12-34(56)''" "str_of (contact_person ?b) = ''Ivan Ivanov''"
    by (simp_all add: sample_customer_def)
  have e: "Customer_str ?c =
       Some (''Customer: ID=1205, Name='' @ [CHR 0x27] @ ''Acme'' @ [CHR 0x27]
             @ '', Phone='' @ [CHR 0x27] @ ''12-34(56)'' @ [CHR 0x27]
             @ '', Contact='' @ [CHR 0x27] @ ''Ivan Ivanov'' @ [CHR 0x27])"
    by code_simp
  from C9_str [of ?c "PStr ''Other road 22''"] a(1) f(1-4)
  obtain i where i: "Customer_str ?c =
            Some (''Customer: ID='' @ i
                  @ '', Name='' @ [CHR 0x27] @ ''Acme'' @ [CHR 0x27]
                  @ '', Phone='' @ [CHR 0x27] @ ''12-34(56)'' @ [CHR 0x27]
                  @ '', Contact='' @ [CHR 0x27] @ ''Ivan Ivanov'' @ [CHR 0x27])"
    "list_all is_decimal_digit i" "int (val_of i) = 1205"
    and adr: "Customer_str (?c\<lparr>address := PStr ''Other road 22''\<rparr>) = Customer_str ?c"
    by auto
  let ?r = "'' Name='' @ [CHR 0x27] @ ''Acme'' @ [CHR 0x27]
             @ '', Phone='' @ [CHR 0x27] @ ''12-34(56)'' @ [CHR 0x27]
             @ '', Contact='' @ [CHR 0x27] @ ''Ivan Ivanov'' @ [CHR 0x27]"
  from i(1) e have "i @ CHR '','' # ?r = ''1205'' @ CHR '','' # ?r"
    by simp
  then have tw: "takeWhile is_decimal_digit (i @ CHR '','' # ?r)
      = takeWhile is_decimal_digit (''1205'' @ CHR '','' # ?r)"
    by (rule arg_cong)
  have nd: "\<not> is_decimal_digit CHR '',''" by (simp add: is_decimal_digit_def)
  have l: "takeWhile is_decimal_digit (i @ CHR '','' # ?r) = i"
    using i(2) nd by (rule takeWhile_digits)
  have r: "takeWhile is_decimal_digit (''1205'' @ CHR '','' # ?r) = ''1205''"
    by (rule takeWhile_digits) (simp_all add: is_decimal_digit_def)
  from tw have "i = ''1205''"
    unfolding l r .
  with i(3) have v: "int (val_of ''1205'') = 1205" by simp
  from C9_str [of ?b "PStr ''Other road 22''"] a(2) f(5-8)
  have t: "Customer_str ?b =
       Some (''Customer: ID=True, Name='' @ [CHR 0x27] @ ''Acme'' @ [CHR 0x27]
             @ '', Phone='' @ [CHR 0x27] @ ''12-34(56)'' @ [CHR 0x27]
             @ '', Contact='' @ [CHR 0x27] @ ''Ivan Ivanov'' @ [CHR 0x27])"
    by auto
  from a(1) e v adr t show ?thesis by simp
qed

section \<open>Texts that do not encode a mapping\<close>

text \<open>
  Claim C10. A text argument fails with \<open>FormatError\<close> exactly when \<open>json.loads\<close> rejects it.
  A text that decodes to an array holding none of the five required keys as an element
  fails with \<open>MissingFieldError\<close> listing all five keys.
\<close>

theorem C10_non_mapping_json:
  "(Customer_init loads [PStr s] kwargs = Inl FormatError \<longleftrightarrow> loads s = None)
   \<and> (loads s = Some (PList xs) \<and> (\<forall>k \<in> set required_fields. PStr k \<notin> set xs) \<longrightarrow>
        Customer_init loads [PStr s] kwargs = Inl (MissingFieldError required_fields))"
proof (intro conjI impI)
  have "init_from_dict data \<noteq> Inl FormatError" for data
    using init_from_dict_error[of data FormatError] by auto
  then show "Customer_init loads [PStr s] kwargs = Inl FormatError \<longleftrightarrow> loads s = None"
    by (auto simp: Customer_init_def split: option.splits)
next
  assume a: "loads s = Some (PList xs) \<and> (\<forall>k \<in> set required_fields. PStr k \<notin> set xs)"
  then have "filter (\<lambda>k. PStr k \<notin> set xs) required_fields = required_fields"
    by (simp add: filter_id_conv)
  moreover have "required_fields \<noteq> []" by (simp add: required_fields_def)
  ultimately show "Customer_init loads [PStr s] kwargs = Inl (MissingFieldError required_fields)"
    using a by (simp add: Customer_init_def init_from_dict_def missing_fields_PList bind_value_def)
qed

text \<open>The text \<open>[]\<close> reports the five keys as missing; the text \<open>{\<close> is malformed.\<close>

theorem C10_witness:
  "sample_loads ''[]'' = Some (PList [])
   \<and> Customer_init sample_loads [PStr ''[]''] []
       = Inl (MissingFieldError [''customer_id'', ''name'', ''address'', ''phone'', ''contact_person''])
   \<and> Customer_init sample_loads [PStr ''[]''] [] \<noteq> Inl FormatError
   \<and> sample_loads ''{'' = None
   \<and> Customer_init sample_loads [PStr ''{''] [] = Inl FormatError"
proof -
  have a: "Customer_init sample_loads [PStr ''[]''] [] = Inl (MissingFieldError required_fields)"
    using C10_non_mapping_json [of sample_loads "''[]''" "[]" "[]"] sample_loads_array by simp
  have b: "Customer_init sample_loads [PStr ''[]''] [] \<noteq> Inl FormatError"
    using C10_non_mapping_json [of sample_loads "''[]''" "[]" "[]"] sample_loads_array by simp
  have c: "Customer_init sample_loads [PStr ''{''] [] = Inl FormatError"
    using C10_non_mapping_json [of sample_loads "''{''" "[]" "[]"] sample_loads_malformed by simp
  from a b c sample_loads_array sample_loads_malformed show ?thesis
    by (simp add: required_fields_def)
qed

end
